theory Spec2Isabelle
  imports Main "HOL-Library.Log_Nat"
begin

section \<open>useCountdown: a countdown on top of an interval scheduler\<close>

text \<open>
  The source is \<^verbatim>\<open>packages/core/useCountdown/index.ts\<close>. The function
  \<^verbatim>\<open>useCountdown(initialCountdown, options)\<close> creates the reactive value
  \<^verbatim>\<open>remaining\<close>, hands a tick callback to \<^verbatim>\<open>useIntervalFn\<close> and returns the
  closures \<^verbatim>\<open>reset\<close>, \<^verbatim>\<open>stop\<close>, \<^verbatim>\<open>start\<close>, \<^verbatim>\<open>pause\<close> and
  \<^verbatim>\<open>resume\<close>. The closures share mutable cells, so the embedding passes one record
  of those cells through every operation.

  Modelling decisions.
  \<^item> A TypeScript \<^verbatim>\<open>number\<close> is an IEEE 754 double. A finite double is modelled by
    the rational number it denotes, and \<^verbatim>\<open>remaining.value - 1\<close> is the exact
    difference rounded to the nearest double (\<open>round_to_double\<close> below). The
    comparisons with 0 are exact on doubles. \<^verbatim>\<open>NaN\<close> and the infinities are outside
    the model.
  \<^item> A user callback \<^verbatim>\<open>() => void\<close> is opaque: it is known by an identifier, and
    calling it appends one entry to a log, together with the values of
    \<^verbatim>\<open>remaining\<close> and \<^verbatim>\<open>isActive\<close> that the callback would read at that moment.
    A callback that itself calls back into the controller is a sequence of separate
    operations and is not covered by \<open>tick\<close> alone.
  \<^item> \<^verbatim>\<open>toValue(initialCountdown)\<close> reads a value that its owner can change between
    two operations; the record field \<open>initialCountdown\<close> is the value such a read
    yields now, and the action \<open>SetInitialCountdown\<close> is the owner changing it.
    The same holds for \<^verbatim>\<open>options.onComplete\<close>, which \<^verbatim>\<open>watchEffect\<close> copies
    into the local cell \<^verbatim>\<open>onComplete\<close>.
  \<^item> \<^verbatim>\<open>options\<close> may be \<^verbatim>\<open>undefined\<close>; every access is \<^verbatim>\<open>options?.field\<close>,
    so an absent bundle behaves as the bundle whose fields are all \<open>None\<close>.
\<close>

subsection \<open>Numbers\<close>

text \<open>
  A finite double is \<open>m * 2 ^ p\<close> for integers \<open>m\<close> and \<open>p\<close> with \<open>\<bar>m\<bar> < 2 ^ 53\<close> and
  \<open>p \<ge> - 1074\<close>. An arithmetic operation of the language yields the double nearest to
  the exact result, and of two nearest doubles the one whose \<open>m\<close> is even.

  \<open>exponent y\<close> is the integer \<open>e\<close> with \<open>2 ^ e \<le> \<bar>y\<bar> < 2 ^ (e + 1)\<close>, computed on the
  integer part of \<open>\<bar>y\<bar>\<close> or of its inverse; \<open>quantum y\<close> is the spacing of the doubles
  around \<open>y\<close>, which is \<open>2 ^ (e - 52)\<close> and never less than \<open>2 ^ (- 1074)\<close>. The only
  operation of the source is \<open>x - 1\<close>, whose result is never beyond the largest double,
  so overflow does not arise.
\<close>

type_synonym number = rat

definition exponent :: "number \<Rightarrow> int" where
  "exponent y =
     (if 1 \<le> \<bar>y\<bar> then bitlen \<lfloor>\<bar>y\<bar>\<rfloor> - 1 else - bitlen (\<lceil>1 / \<bar>y\<bar>\<rceil> - 1))"

definition quantum :: "number \<Rightarrow> number" where
  "quantum y = 2 powi max (exponent y - 52) (- 1074)"

definition round_half_even :: "number \<Rightarrow> int" where
  "round_half_even m =
     (let f = \<lfloor>m\<rfloor>; r = m - of_int f
      in if r < 1 / 2 then f else if 1 / 2 < r then f + 1 else if even f then f else f + 1)"

definition round_to_double :: "number \<Rightarrow> number" where
  "round_to_double y =
     (if y = 0 then 0 else of_int (round_half_even (y / quantum y)) * quantum y)"


subsection \<open>Data\<close>

type_synonym callback = nat

datatype site = OnTick | OnComplete

datatype call =
  Call (site: site) (fn: callback) (seen_remaining: number) (seen_isActive: bool)

record options =
  interval :: "number option"
  onComplete :: "callback option"
  onTick :: "callback option"
  immediate :: "bool option"

record intervalFn =
  isActive :: bool
  period :: number

record countdown =
  remaining :: number
  onComplete_value :: "callback option"
  intervalController :: intervalFn
  initialCountdown :: number
  options :: options
  calls :: "call list"

subsection \<open>The interval scheduler\<close>

text \<open>
  Modelled from the spec: \<^verbatim>\<open>useIntervalFn\<close> of \<^verbatim>\<open>@vueuse/shared\<close> is imported by
  the source and is not among the source files. The spec describes it as a
  periodic-callback scheduler constructed with \<^verbatim>\<open>(callback, periodMs, {immediate})\<close>
  that reports whether it is running, where \<^verbatim>\<open>immediate\<close> says whether it starts
  upon construction.
\<close>

definition useIntervalFn :: "number \<Rightarrow> bool \<Rightarrow> intervalFn" where
  "useIntervalFn ms imm = \<lparr>isActive = imm, period = ms\<rparr>"

text \<open>
  Modelled from the spec: the scheduler's \<^verbatim>\<open>pause()\<close> stops the recurring callback,
  after which the running flag is false.
\<close>

definition intervalFn_pause :: "intervalFn \<Rightarrow> intervalFn" where
  "intervalFn_pause c = c\<lparr>isActive := False\<rparr>"

text \<open>
  Modelled from the spec: the scheduler's \<^verbatim>\<open>resume()\<close> starts the recurring callback,
  after which the running flag is true.
\<close>

definition intervalFn_resume :: "intervalFn \<Rightarrow> intervalFn" where
  "intervalFn_resume c = c\<lparr>isActive := True\<rparr>"

text \<open>
  Modelled from the spec: when a period has elapsed the scheduler invokes its callback
  if it is running, and does nothing if it is paused (the spec has the tick invoked
  every \<^verbatim>\<open>interval\<close> ms while active, and none after \<^verbatim>\<open>pause()\<close> until the next
  \<^verbatim>\<open>resume()\<close>). The callback acts on the state \<open>'s\<close> of whoever supplied it.
\<close>

definition intervalFn_fire :: "intervalFn \<Rightarrow> ('s \<Rightarrow> 's) \<Rightarrow> 's \<Rightarrow> 's" where
  "intervalFn_fire c cb s = (if isActive c then cb s else s)"

subsection \<open>The controller\<close>

text \<open>\<^verbatim>\<open>cb?.()\<close>: nothing happens when the callback is undefined.\<close>

definition invoke :: "site \<Rightarrow> callback option \<Rightarrow> countdown \<Rightarrow> countdown" where
  "invoke st cb s =
     (case cb of
        None \<Rightarrow> s
      | Some f \<Rightarrow>
          s\<lparr>calls := calls s @ [Call st f (remaining s) (isActive (intervalController s))]\<rparr>)"

text \<open>The callback handed to \<^verbatim>\<open>useIntervalFn\<close> (lines 62 to 70).\<close>

definition tick :: "countdown \<Rightarrow> countdown" where
  "tick s =
     (let v = round_to_double (remaining s - 1);
          s1 = s\<lparr>remaining := (if v < 0 then 0 else v)\<rparr>;
          s2 = invoke OnTick (onTick (options s1)) s1
      in if remaining s2 \<le> 0
         then let s3 = s2\<lparr>intervalController := intervalFn_pause (intervalController s2)\<rparr>
              in invoke OnComplete (onComplete_value s3) s3
         else s2)"

definition reset :: "countdown \<Rightarrow> countdown" where
  "reset s = s\<lparr>remaining := initialCountdown s\<rparr>"

definition pause :: "countdown \<Rightarrow> countdown" where
  "pause s = s\<lparr>intervalController := intervalFn_pause (intervalController s)\<rparr>"

definition stop :: "countdown \<Rightarrow> countdown" where
  "stop s = reset (s\<lparr>intervalController := intervalFn_pause (intervalController s)\<rparr>)"

definition resume :: "countdown \<Rightarrow> countdown" where
  "resume s =
     (if \<not> isActive (intervalController s)
      then (if remaining s > 0
            then s\<lparr>intervalController := intervalFn_resume (intervalController s)\<rparr>
            else s)
      else s)"

text \<open>
  The interface declares \<^verbatim>\<open>start: (initialCountdown?) => void\<close>; the closure bound to
  it is \<^verbatim>\<open>() => { reset(); intervalController.resume() }\<close>, which has no parameter,
  so an argument passed by a caller is dropped.
\<close>

definition start :: "number option \<Rightarrow> countdown \<Rightarrow> countdown" where
  "start override s =
     (let s1 = reset s
      in s1\<lparr>intervalController := intervalFn_resume (intervalController s1)\<rparr>)"

definition useCountdown :: "number \<Rightarrow> options \<Rightarrow> countdown" where
  "useCountdown ic opts =
     \<lparr>remaining = ic,
      onComplete_value = onComplete opts,
      intervalController =
        useIntervalFn (case interval opts of None \<Rightarrow> 1000 | Some ms \<Rightarrow> ms)
                      (case immediate opts of None \<Rightarrow> False | Some b \<Rightarrow> b),
      initialCountdown = ic,
      options = opts,
      calls = []\<rparr>"

subsection \<open>Histories of operations\<close>

text \<open>
  What can happen to a controller between construction and now: the scheduler fires,
  a caller uses one of the returned closures, or the owner of a dynamic source assigns
  to it. \<open>Tick\<close> is a period of the scheduler elapsing.
\<close>

datatype action =
  Tick | Reset | Stop | Start "number option" | Pause | Resume
  | SetInitialCountdown number | SetOnComplete "callback option"

fun step :: "action \<Rightarrow> countdown \<Rightarrow> countdown" where
  "step Tick s = intervalFn_fire (intervalController s) tick s"
| "step Reset s = reset s"
| "step Stop s = stop s"
| "step (Start override) s = start override s"
| "step Pause s = pause s"
| "step Resume s = resume s"
| "step (SetInitialCountdown n) s = s\<lparr>initialCountdown := n\<rparr>"
| "step (SetOnComplete cb) s = s\<lparr>onComplete_value := cb\<rparr>"

fun run :: "action list \<Rightarrow> countdown \<Rightarrow> countdown" where
  "run [] s = s"
| "run (a # as) s = run as (step a s)"

text \<open>The calls made from one site, in order.\<close>

definition calls_at :: "site \<Rightarrow> countdown \<Rightarrow> call list" where
  "calls_at st s = filter (\<lambda>c. site c = st) (calls s)"

subsection \<open>Two configurations used in the examples\<close>

text \<open>
  A bundle with every field set (callback 1 on each tick, callback 2 on completion,
  a period of 10 ms, started at once) and the bundle with no field set.
\<close>

definition demo_options :: options where
  "demo_options =
     \<lparr>interval = Some 10, onComplete = Some 2, onTick = Some 1, immediate = Some True\<rparr>"

definition default_options :: options where
  "default_options =
     \<lparr>interval = None, onComplete = None, onTick = None, immediate = None\<rparr>"

section \<open>Properties\<close>

lemmas controller_defs =
  useCountdown_def useIntervalFn_def intervalFn_pause_def intervalFn_resume_def
  intervalFn_fire_def
  invoke_def tick_def reset_def pause_def stop_def resume_def start_def calls_at_def
  demo_options_def default_options_def Let_def

text \<open>A period that elapses is always reasoned about through its two cases.\<close>

declare intervalFn_fire_def [simp]

subsection \<open>Rounding to a double\<close>
















text \<open>
  The doubles that the examples subtract from.
\<close>

lemma round_to_double_small [simp]:
  "round_to_double (- 1) = - 1"
  "round_to_double 0 = 0"
  "round_to_double 1 = 1"
  "round_to_double 2 = 2"
  "round_to_double 3 = 3"
  by code_simp+


subsection \<open>Basic facts about one tick\<close>

lemma remaining_invoke [simp]: "remaining (invoke st cb s) = remaining s"
  by (simp add: invoke_def split: option.splits)

lemma intervalController_invoke [simp]:
  "intervalController (invoke st cb s) = intervalController s"
  by (simp add: invoke_def split: option.splits)








subsection \<open>Runs of the scheduler\<close>

lemma run_Tick_idle:
  "\<not> isActive (intervalController s) \<Longrightarrow> run (replicate k Tick) s = s"
  by (induction k) simp_all







subsection \<open>Invariants over histories\<close>

lemma step_nonneg:
  assumes "0 \<le> remaining s" and "0 \<le> initialCountdown s"
    and "\<And>n. a = SetInitialCountdown n \<Longrightarrow> 0 \<le> n"
  shows "0 \<le> remaining (step a s) \<and> 0 \<le> initialCountdown (step a s)"
  using assms
  by (cases a)
     (simp_all add: tick_def invoke_def reset_def pause_def stop_def resume_def start_def
        Let_def split: option.splits)

lemma run_nonneg:
  assumes "0 \<le> remaining s" and "0 \<le> initialCountdown s"
    and "\<forall>n. SetInitialCountdown n \<in> set as \<longrightarrow> 0 \<le> n"
  shows "0 \<le> remaining (run as s) \<and> 0 \<le> initialCountdown (run as s)"
  using assms
proof (induction as arbitrary: s)
  case Nil
  then show ?case by simp
next
  case (Cons a as)
  have "0 \<le> remaining (step a s) \<and> 0 \<le> initialCountdown (step a s)"
    using Cons.prems by (intro step_nonneg) simp_all
  moreover have "\<forall>n. SetInitialCountdown n \<in> set as \<longrightarrow> 0 \<le> n"
    using Cons.prems(3) by simp
  ultimately show ?case
    using Cons.IH by simp
qed

text \<open>
  Claim C3, as amended. If the configured initial value is not negative at
  construction and at every later assignment to its source, then \<open>remaining \<ge> 0\<close>
  after construction and after every sequence of tick, reset, stop, start, pause and
  resume.
\<close>

theorem remaining_nonneg_reachable:
  assumes "0 \<le> ic" and "\<forall>n. SetInitialCountdown n \<in> set as \<longrightarrow> 0 \<le> n"
  shows "0 \<le> remaining (run as (useCountdown ic opts))"
proof -
  have "0 \<le> remaining (useCountdown ic opts)" "0 \<le> initialCountdown (useCountdown ic opts)"
    using assms(1) by (simp_all add: useCountdown_def)
  then show ?thesis
    using run_nonneg assms(2) by blast
qed

text \<open>
  A history that completes a countdown of two, sets the source to 0 and starts again
  (passing an override of 7, which is dropped).
\<close>

theorem remaining_nonneg_reachable_witness:
  "(0::number) \<le> 2
   \<and> remaining (run [Tick, Tick, Tick, SetInitialCountdown 0, Start (Some 7), Tick, Resume, Reset]
                  (useCountdown 2 demo_options)) = 0"
proof -
  let ?as = "[Tick, Tick, Tick, SetInitialCountdown 0, Start (Some 7), Tick, Resume, Reset]"
  have h: "\<forall>n. SetInitialCountdown n \<in> set ?as \<longrightarrow> 0 \<le> n" by simp
  have z: "(0::number) \<le> 2" by simp
  have "remaining (run ?as (useCountdown 2 demo_options)) \<le> 0"
    by (simp add: controller_defs)
  with remaining_nonneg_reachable [OF z h, of demo_options] z show ?thesis by simp
qed

text \<open>
  With no condition on the initial value the invariant fails: construction copies a
  negative value into \<open>remaining\<close>, and so does \<open>reset\<close> once the source has
  become negative.
\<close>

theorem remaining_negative_counterexample:
  "remaining (useCountdown (- 5) default_options) < 0
   \<and> remaining (run [SetInitialCountdown (- 1), Reset] (useCountdown 3 default_options)) < 0"
  by (simp add: controller_defs)

lemma step_active_positive:
  assumes "isActive (intervalController s) \<Longrightarrow> 0 < remaining s" and "0 < initialCountdown s"
    and "\<And>n. a = SetInitialCountdown n \<Longrightarrow> 0 < n"
  shows "(isActive (intervalController (step a s)) \<longrightarrow> 0 < remaining (step a s))
         \<and> 0 < initialCountdown (step a s)"
  using assms
  by (cases a)
     (auto simp add: tick_def invoke_def reset_def pause_def stop_def resume_def start_def
        intervalFn_pause_def intervalFn_resume_def Let_def split: option.splits)

lemma run_active_positive:
  assumes "isActive (intervalController s) \<longrightarrow> 0 < remaining s" and "0 < initialCountdown s"
    and "\<forall>n. SetInitialCountdown n \<in> set as \<longrightarrow> 0 < n"
  shows "(isActive (intervalController (run as s)) \<longrightarrow> 0 < remaining (run as s))
         \<and> 0 < initialCountdown (run as s)"
  using assms
proof (induction as arbitrary: s)
  case Nil
  then show ?case by simp
next
  case (Cons a as)
  have "(isActive (intervalController (step a s)) \<longrightarrow> 0 < remaining (step a s))
         \<and> 0 < initialCountdown (step a s)"
    using Cons.prems by (intro step_active_positive) simp_all
  moreover have "\<forall>n. SetInitialCountdown n \<in> set as \<longrightarrow> 0 < n"
    using Cons.prems(3) by simp
  ultimately show ?case
    using Cons.IH by simp
qed

text \<open>
  Claim C4, as amended. If the configured initial value is positive at construction
  and at every later assignment to its source, then in every state reached by a
  sequence of operations \<open>isActive\<close> is true only if \<open>remaining > 0\<close>. The states
  meant are those between operations: inside the completing tick \<open>onTick\<close> is called
  after \<open>remaining\<close> became 0 and before the scheduler is paused.
\<close>

theorem active_implies_positive:
  assumes "0 < ic" and "\<forall>n. SetInitialCountdown n \<in> set as \<longrightarrow> 0 < n"
    and "isActive (intervalController (run as (useCountdown ic opts)))"
  shows "0 < remaining (run as (useCountdown ic opts))"
proof -
  have "isActive (intervalController (useCountdown ic opts)) \<longrightarrow> 0 < remaining (useCountdown ic opts)"
    "0 < initialCountdown (useCountdown ic opts)"
    using assms(1) by (simp_all add: useCountdown_def)
  then show ?thesis
    using run_active_positive assms(2,3) by blast
qed

theorem active_implies_positive_witness:
  "(0::number) < 2
   \<and> isActive (intervalController
        (run [Tick, Tick, Resume, SetInitialCountdown 4, Start None, Tick]
           (useCountdown 2 demo_options)))
   \<and> 0 < remaining (run [Tick, Tick, Resume, SetInitialCountdown 4, Start None, Tick]
        (useCountdown 2 demo_options))"
proof -
  let ?as = "[Tick, Tick, Resume, SetInitialCountdown 4, Start None, Tick]"
  have h: "\<forall>n. SetInitialCountdown n \<in> set ?as \<longrightarrow> 0 < n" by simp
  have z: "(0::number) < 2" by simp
  have a: "isActive (intervalController (run ?as (useCountdown 2 demo_options)))"
    by (simp add: controller_defs)
  from active_implies_positive [OF z h a] z a show ?thesis by blast
qed

text \<open>
  Without the condition the invariant fails: \<open>start\<close> with an initial value of 0
  leaves the scheduler running with \<open>remaining = 0\<close>.
\<close>

theorem active_at_zero_counterexample:
  "isActive (intervalController (run [Start None] (useCountdown 0 default_options)))
   \<and> remaining (run [Start None] (useCountdown 0 default_options)) \<le> 0"
  by (simp add: controller_defs)

subsection \<open>The returned operations\<close>

text \<open>
  Claim C5. From any state, and whatever argument the caller passes, \<open>start\<close> leaves
  the scheduler running and \<open>remaining\<close> equal to the current value of the configured
  initial countdown; the argument does not reach the reset value.
\<close>

theorem start_runs_from_initial:
  "isActive (intervalController (start override s))
   \<and> remaining (start override s) = initialCountdown s"
  by (simp add: start_def reset_def intervalFn_resume_def Let_def)

text \<open>
  After a completed countdown of three, \<open>start\<close> with an override of 10 runs again
  from 3.
\<close>

theorem start_runs_from_initial_witness:
  "isActive (intervalController
     (start (Some 10) (run [Tick, Tick, Tick] (useCountdown 3 demo_options))))
   \<and> remaining (start (Some 10) (run [Tick, Tick, Tick] (useCountdown 3 demo_options))) = 3
   \<and> remaining (run [Tick, Tick, Tick] (useCountdown 3 demo_options)) = 0
   \<and> \<not> isActive (intervalController (run [Tick, Tick, Tick] (useCountdown 3 demo_options)))"
proof -
  let ?s = "run [Tick, Tick, Tick] (useCountdown 3 demo_options)"
  have i: "initialCountdown ?s = 3" and r: "remaining ?s = 0"
    and a: "\<not> isActive (intervalController ?s)"
    by (simp_all add: controller_defs)
  show ?thesis
    using start_runs_from_initial [of "Some 10" ?s] i r a by (simp del: run.simps)
qed

text \<open>
  Claim C6. From any state \<open>stop\<close> leaves the scheduler paused and \<open>remaining\<close>
  equal to the current value of the configured initial countdown.
\<close>

theorem stop_idles_at_initial:
  "\<not> isActive (intervalController (stop s)) \<and> remaining (stop s) = initialCountdown s"
  by (simp add: stop_def reset_def intervalFn_pause_def)

theorem stop_idles_at_initial_witness:
  "isActive (intervalController (run [Tick, Tick] (useCountdown 3 demo_options)))
   \<and> remaining (run [Tick, Tick] (useCountdown 3 demo_options)) = 1
   \<and> \<not> isActive (intervalController (stop (run [Tick, Tick] (useCountdown 3 demo_options))))
   \<and> remaining (stop (run [Tick, Tick] (useCountdown 3 demo_options))) = 3"
proof -
  let ?s = "run [Tick, Tick] (useCountdown 3 demo_options)"
  have i: "initialCountdown ?s = 3" and r: "remaining ?s = 1"
    and a: "isActive (intervalController ?s)"
    by (simp_all add: controller_defs)
  show ?thesis
    using stop_idles_at_initial [of ?s] i r a by (simp del: run.simps)
qed

text \<open>
  Claim C7. When \<open>remaining\<close> is 0, \<open>resume\<close> changes no part of the state: the
  scheduler is not resumed and \<open>isActive\<close> keeps its value, which is false after a
  countdown has completed.
\<close>

theorem resume_at_zero_noop:
  assumes "remaining s = 0"
  shows "resume s = s
         \<and> isActive (intervalController (resume s)) = isActive (intervalController s)"
  using assms by (simp add: resume_def)

theorem resume_at_zero_noop_witness:
  "remaining (run [Tick, Tick, Tick] (useCountdown 3 demo_options)) = 0
   \<and> \<not> isActive (intervalController (run [Tick, Tick, Tick] (useCountdown 3 demo_options)))
   \<and> resume (run [Tick, Tick, Tick] (useCountdown 3 demo_options))
       = run [Tick, Tick, Tick] (useCountdown 3 demo_options)
   \<and> \<not> isActive (intervalController
          (resume (run [Tick, Tick, Tick] (useCountdown 3 demo_options))))"
proof -
  let ?s = "run [Tick, Tick, Tick] (useCountdown 3 demo_options)"
  have r: "remaining ?s = 0" and a: "\<not> isActive (intervalController ?s)"
    by (simp_all add: controller_defs)
  show ?thesis
    using resume_at_zero_noop [OF r] r a by (simp del: run.simps)
qed

text \<open>
  Claim C8. \<open>reset\<close> sets \<open>remaining\<close> to the current value of the configured
  initial countdown and leaves every other part of the state as it was, the scheduler
  and its running flag among them.
\<close>

theorem reset_only_remaining:
  "remaining (reset s) = initialCountdown s
   \<and> intervalController (reset s) = intervalController s
   \<and> onComplete_value (reset s) = onComplete_value s
   \<and> initialCountdown (reset s) = initialCountdown s
   \<and> options (reset s) = options s
   \<and> calls (reset s) = calls s"
  by (simp add: reset_def)

theorem reset_only_remaining_witness:
  "remaining (run [Tick] (useCountdown 3 demo_options)) = 2
   \<and> remaining (reset (run [Tick] (useCountdown 3 demo_options))) = 3
   \<and> isActive (intervalController (run [Tick] (useCountdown 3 demo_options)))
   \<and> isActive (intervalController (reset (run [Tick] (useCountdown 3 demo_options))))
   \<and> \<not> isActive (intervalController (reset (useCountdown 3 default_options)))"
proof -
  let ?s = "run [Tick] (useCountdown 3 demo_options)"
  have i: "initialCountdown ?s = 3" and r: "remaining ?s = 2"
    and a: "isActive (intervalController ?s)"
    and b: "\<not> isActive (intervalController (useCountdown 3 default_options))"
    by (simp_all add: controller_defs)
  show ?thesis
    using reset_only_remaining [of ?s] reset_only_remaining [of "useCountdown 3 default_options"]
      i r a b
    by (simp del: run.simps)
qed

subsection \<open>Construction\<close>

text \<open>
  Claim C9, as amended. Right after construction the scheduler is running exactly when
  the option \<open>immediate\<close> is true, whatever the value of \<open>remaining\<close>. When
  \<open>immediate\<close> is false or omitted the controller is idle and stays as constructed
  however often the scheduler's period elapses.
\<close>

theorem running_after_construction:
  "isActive (intervalController (useCountdown ic opts)) = (immediate opts = Some True)
   \<and> (immediate opts \<noteq> Some True \<longrightarrow>
        run (replicate k Tick) (useCountdown ic opts) = useCountdown ic opts)"
proof -
  have "isActive (intervalController (useCountdown ic opts)) = (immediate opts = Some True)"
    by (cases "immediate opts") (simp_all add: useCountdown_def useIntervalFn_def)
  then show ?thesis
    by (simp add: run_Tick_idle)
qed

text \<open>
  With no options nothing moves until \<open>start\<close> or \<open>resume\<close> is called, after which
  a tick counts down.
\<close>

theorem running_after_construction_witness:
  "immediate default_options \<noteq> Some True
   \<and> \<not> isActive (intervalController (useCountdown 3 default_options))
   \<and> run (replicate 4 Tick) (useCountdown 3 default_options) = useCountdown 3 default_options
   \<and> remaining (run [Start None, Tick] (useCountdown 3 default_options)) = 2
   \<and> remaining (run [Resume, Tick] (useCountdown 3 default_options)) = 2
   \<and> isActive (intervalController (useCountdown 3 demo_options))"
proof -
  have d: "immediate default_options \<noteq> Some True" and e: "immediate demo_options = Some True"
    by (simp_all add: demo_options_def default_options_def)
  have t: "remaining (run [Start None, Tick] (useCountdown 3 default_options)) = 2"
    "remaining (run [Resume, Tick] (useCountdown 3 default_options)) = 2"
    by (simp_all add: controller_defs)
  show ?thesis
    using running_after_construction [of 3 default_options 4]
      running_after_construction [of 3 demo_options 0] d e t
    by (simp del: run.simps)
qed

text \<open>
  The state of \<open>remaining\<close> plays no part: with \<open>immediate\<close> true and an initial
  value of 0 the scheduler runs although \<open>remaining\<close> is not positive.
\<close>

theorem running_at_zero_counterexample:
  "immediate demo_options = Some True
   \<and> isActive (intervalController (useCountdown 0 demo_options))
   \<and> \<not> 0 < remaining (useCountdown 0 demo_options)"
  by (simp add: controller_defs)

subsection \<open>A tick at zero\<close>

text \<open>
  Claim C10. A tick in a state with \<open>remaining = 0\<close> leaves \<open>remaining\<close> at 0, calls
  \<open>onTick\<close>, pauses the scheduler and then calls \<open>onComplete\<close>: the completion
  callback runs on a tick before which \<open>remaining\<close> was not positive.
\<close>

theorem tick_at_zero:
  assumes "remaining s = 0" and "onTick (options s) = Some f" and "onComplete_value s = Some g"
  shows "remaining (tick s) = 0
         \<and> \<not> isActive (intervalController (tick s))
         \<and> calls (tick s) =
             calls s @ [Call OnTick f 0 (isActive (intervalController s)), Call OnComplete g 0 False]"
  using assms by (simp add: tick_def invoke_def intervalFn_pause_def Let_def)

text \<open>
  Such a state is reached by \<open>start\<close> once the initial value has become 0. Here a
  countdown of one completes, the source is set to 0 and \<open>start\<close> is called: the next
  tick calls \<open>onComplete\<close> a second time.
\<close>

theorem tick_at_zero_witness:
  "remaining (run [Tick, SetInitialCountdown 0, Start None] (useCountdown 1 demo_options)) = 0
   \<and> isActive (intervalController
        (run [Tick, SetInitialCountdown 0, Start None] (useCountdown 1 demo_options)))
   \<and> calls (run [Tick, SetInitialCountdown 0, Start None] (useCountdown 1 demo_options))
       = [Call OnTick 1 0 True, Call OnComplete 2 0 False]
   \<and> remaining (tick (run [Tick, SetInitialCountdown 0, Start None] (useCountdown 1 demo_options)))
       = 0
   \<and> \<not> isActive (intervalController
          (tick (run [Tick, SetInitialCountdown 0, Start None] (useCountdown 1 demo_options))))
   \<and> calls (tick (run [Tick, SetInitialCountdown 0, Start None] (useCountdown 1 demo_options)))
       = [Call OnTick 1 0 True, Call OnComplete 2 0 False,
          Call OnTick 1 0 True, Call OnComplete 2 0 False]"
proof -
  let ?s = "run [Tick, SetInitialCountdown 0, Start None] (useCountdown 1 demo_options)"
  have r: "remaining ?s = 0" and f: "onTick (options ?s) = Some 1"
    and g: "onComplete_value ?s = Some 2" and a: "isActive (intervalController ?s)"
    and c: "calls ?s = [Call OnTick 1 0 True, Call OnComplete 2 0 False]"
    by (simp_all add: controller_defs)
  show ?thesis
    using tick_at_zero [OF r f g] r a c by (simp del: run.simps)
qed

end
